theory Spec2Isabelle
  imports Complex_Main
begin

section \<open>Python values and exceptions\<close>

text \<open>
  The exceptions the modelled functions raise themselves or meet through Python's own
  semantics (an unbound name, a missing attribute, a missing dictionary key).
\<close>

datatype exn =
    ValueError string
  | NameError string
  | AttributeError string
  | TypeError string
  | KeyError

text \<open>
  A Pyomo variable as the solver interface sees it: its identity (variables are hashed
  by identity in the bookkeeping maps) and the answers of the methods and attributes
  that \<open>xpress_persistent.py\<close> reads. \<open>lb\<close> and \<open>ub\<close> hold the numbers
  \<open>value(var.lb)\<close> and \<open>value(var.ub)\<close>; they are \<open>None\<close> exactly when
  \<open>has_lb()\<close>, \<open>has_ub()\<close> answer false. \<open>var_value\<close> is \<open>var.value\<close>.
\<close>

record pyomo_var =
  var_id :: nat
  is_binary :: bool
  is_integer :: bool
  is_continuous :: bool
  is_fixed :: bool
  var_value :: "real option"
  lb :: "real option"
  ub :: "real option"

text \<open>
  The Python objects that flow through the modelled code. \<open>Native\<close> is an object whose
  class is in \<open>native_numeric_types\<close>. \<open>ProductExpression a b\<close> and
  \<open>SumExpression a b\<close> stand for the objects that Pyomo's overloaded \<open>a * b\<close> and
  \<open>a + b\<close> build; they are kept symbolic. \<open>ObjectiveData i\<close> is the objective object of identity
  \<open>i\<close>, \<open>SolverObj\<close> an object handed out by the Xpress bindings,
  \<open>PyTuple\<close> a tuple, and \<open>Opaque n\<close> any other object, told apart by the name \<open>n\<close> it is bound to.
\<close>

datatype pyobj =
    PyNone
  | Native real
  | PyStr string
  | ParamData nat "real option"
  | VarData pyomo_var
  | ProductExpression pyobj pyobj
  | SumExpression pyobj pyobj
  | ObjectiveData nat
  | SolverObj nat
  | PyTuple "pyobj list"
  | Opaque string

fun class_in_native_numeric_types :: "pyobj \<Rightarrow> bool" where
  "class_in_native_numeric_types (Native r) = True"
| "class_in_native_numeric_types obj = False"

text \<open>
  \<open>is_expression_type()\<close> is a method of Pyomo's numeric objects; other objects do not
  have it and the call raises \<open>AttributeError\<close>.
\<close>

fun is_expression_type :: "pyobj \<Rightarrow> exn + bool" where
  "is_expression_type (ProductExpression a b) = Inr True"
| "is_expression_type (SumExpression a b) = Inr True"
| "is_expression_type (ParamData i v) = Inr False"
| "is_expression_type (VarData v) = Inr False"
| "is_expression_type obj = Inl (AttributeError ''is_expression_type'')"

text \<open>
  Name resolution inside a function body: a name is looked up among the function's
  locals, then among the globals of its module; an unbound name raises \<open>NameError\<close>.
  (None of the names looked up below is a Python builtin.)
\<close>

definition name_lookup :: "(string \<times> pyobj) list \<Rightarrow> string list \<Rightarrow> string \<Rightarrow> exn + pyobj" where
  "name_lookup locals globals n =
     (case map_of locals n of
        Some obj \<Rightarrow> Inr obj
      | None \<Rightarrow> if n \<in> set globals then Inr (Opaque n) else Inl (NameError n))"

section \<open>\<open>xpress_persistent.py\<close>: conversion to constants\<close>

text \<open>The names bound at module level in \<open>xpress_persistent.py\<close> (imports, def, class).\<close>

definition xpress_persistent_globals :: "string list" where
  "xpress_persistent_globals =
     [''ConcreteModel'', ''XpressDirect'', ''PersistentSolver'', ''value'', ''is_fixed'',
      ''native_numeric_types'', ''EXPR'', ''SolverFactory'', ''find_active_objective'',
      ''collections'', ''_convert_to_const'', ''XpressPersistent'']"

text \<open>
  The Pyomo functions \<open>value\<close> and \<open>EXPR.evaluate_expression\<close> belong to
  \<open>pyomo.core.expr\<close>, which is not among the sources; they are parameters.
\<close>

record pyomo_expr =
  value_of :: "pyobj \<Rightarrow> exn + pyobj"
  evaluate_expression :: "pyobj \<Rightarrow> exn + pyobj"

text \<open>
  \<open>_convert_to_const(val)\<close>. Its second branch evaluates the name \<open>obj_term\<close>, which is
  neither a local of the function (its only local is \<open>val\<close>) nor a module global.
\<close>

definition convert_to_const :: "'a pyomo_expr_scheme \<Rightarrow> pyobj \<Rightarrow> exn + pyobj" where
  "convert_to_const E val =
     (if class_in_native_numeric_types val then Inr val
      else case is_expression_type val of
        Inl e \<Rightarrow> Inl e
      | Inr True \<Rightarrow>
          (case name_lookup [(''val'', val)] xpress_persistent_globals ''obj_term'' of
             Inl e \<Rightarrow> Inl e
           | Inr obj_term \<Rightarrow> evaluate_expression E obj_term)
      | Inr False \<Rightarrow> value_of E val)"

section \<open>\<open>gdpopt/config_options.py\<close>\<close>

subsection \<open>Solver-name validation\<close>

text \<open>
  \<open>SolverFactory\<close> (\<open>pyomo.opt\<close>) is not among the sources: it is a parameter that
  maps the value to the solver object it builds, and the object is represented by the
  classes it is an instance of, which is all \<open>_valid_solvers\<close> asks of it.
\<close>

datatype pyclass = UnknownSolver | PersistentSolver | OtherClass string

definition isinstance :: "pyclass list \<Rightarrow> pyclass \<Rightarrow> bool" where
  "isinstance obj c = (c \<in> set obj)"

text \<open>
  Both messages are built with \<open>"... '%s' ..." % val\<close>, a format with one conversion.
  Python takes a tuple on the right of \<open>%\<close> for the list of the arguments: a tuple
  of one element formats that element, and a tuple of any other length raises
  \<open>TypeError\<close>. Every other value is formatted itself. \<open>str\<close>, the text that
  \<open>%s\<close> produces for a value, is a parameter.
\<close>

fun percent_format :: "(pyobj \<Rightarrow> string) \<Rightarrow> pyobj \<Rightarrow> exn + string" where
  "percent_format str (PyTuple []) = Inl (TypeError ''not enough arguments for format string'')"
| "percent_format str (PyTuple [x]) = Inr (str x)"
| "percent_format str (PyTuple (x # y # zs)) =
     Inl (TypeError ''not all arguments converted during string formatting'')"
| "percent_format str val = Inr (str val)"

definition valid_solvers :: "(pyobj \<Rightarrow> pyclass list) \<Rightarrow> (pyobj \<Rightarrow> string) \<Rightarrow> pyobj \<Rightarrow> exn + pyobj" where
  "valid_solvers SolverFactory str val =
     (let opt = SolverFactory val in
      if isinstance opt UnknownSolver then
        (case percent_format str val of
           Inl e \<Rightarrow> Inl e
         | Inr v \<Rightarrow>
             Inl (ValueError (''Expected a valid name for a solver. Received '' @
                    [CHR 0x27] @ v @ [CHR 0x27])))
      else if isinstance opt PersistentSolver then
        (case percent_format str val of
           Inl e \<Rightarrow> Inl e
         | Inr v \<Rightarrow>
             Inl (ValueError (''GDPopt does not currently support the '' @
                    [CHR 0x27] @ v @ [CHR 0x27] @
                    '' solver. The only supported persistent solvers are those in '' @
                    ''the APPSI package.'')))
      else Inr val)"

subsection \<open>Configuration declarations\<close>

text \<open>
  The arguments of \<open>ConfigValue\<close>, \<open>ConfigList\<close> and \<open>ConfigBlock\<close> as the
  builders give them: the default and the domain (\<open>description\<close> and \<open>doc\<close> are
  documentation strings), and \<open>implicit\<close> for a block. A callback default is named by
  the function it refers to. \<open>Fn_valid_solvers\<close> is the function \<open>_valid_solvers\<close>
  and \<open>Fn_bool\<close> is \<open>bool\<close>; the other domains are those of
  \<open>pyomo.common.config\<close>.
\<close>

datatype cfg_value =
    CStr string
  | CInt int
  | CFloat real
  | CBool bool
  | CNone
  | CCallback string

datatype cfg_domain =
    Fn_valid_solvers
  | In "string list"
  | NonNegativeFloat
  | NonNegativeInt
  | PositiveInt
  | Fn_bool

datatype cfg_entry =
    ConfigValue cfg_value "cfg_domain option"
  | ConfigList cfg_value
  | ConfigBlock bool

fun py_of_cfg :: "cfg_value \<Rightarrow> pyobj" where
  "py_of_cfg (CStr s) = PyStr s"
| "py_of_cfg (CInt i) = Native (of_int i)"
| "py_of_cfg (CFloat r) = Native r"
| "py_of_cfg (CBool b) = Native (if b then 1 else 0)"
| "py_of_cfg CNone = PyNone"
| "py_of_cfg (CCallback n) = Opaque n"

text \<open>
  What the builders run in: the two parameters of \<open>_valid_solvers\<close>, and what the
  domains of \<open>pyomo.common.config\<close> and \<open>bool\<close> return or raise on a value.
\<close>

record gdpopt_env =
  solver_factory :: "pyobj \<Rightarrow> pyclass list"
  py_str :: "pyobj \<Rightarrow> string"
  library_domain :: "cfg_domain \<Rightarrow> cfg_value \<Rightarrow> exn + cfg_value"

definition domain_call :: "gdpopt_env \<Rightarrow> cfg_domain \<Rightarrow> cfg_value \<Rightarrow> exn + cfg_value" where
  "domain_call G d v =
     (case d of
        Fn_valid_solvers \<Rightarrow>
          (case valid_solvers (solver_factory G) (py_str G) (py_of_cfg v) of
             Inl e \<Rightarrow> Inl e
           | Inr r \<Rightarrow> Inr v)
      | _ \<Rightarrow> library_domain G d v)"

text \<open>
  The classes of \<open>pyomo.common.config\<close> are not among the sources. Two things that
  they do decide whether a builder completes, and are modelled here. A \<open>ConfigValue\<close>
  sets itself to its default when it is built: a default other than \<open>None\<close> goes
  through the domain, and whatever the domain raises is raised again as a
  \<open>ValueError\<close>. And \<open>declare\<close> raises \<open>ValueError\<close> for a name that the block
  holds already; otherwise it adds the entry under the name. A block is the list of its
  entries, in the order of their declaration.
\<close>

definition construct :: "gdpopt_env \<Rightarrow> cfg_entry \<Rightarrow> exn + cfg_entry" where
  "construct G entry =
     (case entry of
        ConfigValue dflt (Some d) \<Rightarrow>
          (if dflt = CNone then Inr entry
           else case domain_call G d dflt of
                  Inl e \<Rightarrow> Inl (ValueError ''invalid value for configuration'')
                | Inr v \<Rightarrow> Inr entry)
      | _ \<Rightarrow> Inr entry)"

type_synonym config = "(string \<times> cfg_entry) list"

definition CONFIG_declare :: "config \<Rightarrow> string \<Rightarrow> cfg_entry \<Rightarrow> exn + config" where
  "CONFIG_declare CONFIG name entry =
     (if name \<in> fst ` set CONFIG then Inl (ValueError ''duplicate config'')
      else Inr (CONFIG @ [(name, entry)]))"

text \<open>
  A builder is a sequence of statements \<open>CONFIG.declare(name, entry)\<close>: each builds
  its entry, then declares it. The first exception ends the builder and leaves the
  block with the declarations made before it.
\<close>

fun declare_all :: "gdpopt_env \<Rightarrow> (string \<times> cfg_entry) list \<Rightarrow> config \<Rightarrow> (exn + pyobj) \<times> config" where
  "declare_all G [] CONFIG = (Inr PyNone, CONFIG)"
| "declare_all G ((name, args) # ds) CONFIG =
     (case construct G args of
        Inl e \<Rightarrow> (Inl e, CONFIG)
      | Inr entry \<Rightarrow>
          (case CONFIG_declare CONFIG name entry of
             Inl e \<Rightarrow> (Inl e, CONFIG)
           | Inr CONFIG1 \<Rightarrow> declare_all G ds CONFIG1))"

text \<open>
  \<open>_add_OA_configs\<close>. \<open>valid_init_strategies\<close> (\<open>gdpopt/master_initialize.py\<close>) is
  a dictionary that is not among the sources; it is a parameter, given by its items.
\<close>

definition OA_configs :: "(string \<times> 'f) list \<Rightarrow> (string \<times> cfg_entry) list" where
  "OA_configs valid_init_strategies =
     [(''init_strategy'',
         ConfigValue (CStr ''set_covering'') (Some (In (map fst valid_init_strategies)))),
      (''custom_init_disjuncts'', ConfigList CNone),
      (''max_slack'', ConfigValue (CInt 1000) (Some NonNegativeFloat)),
      (''OA_penalty_factor'', ConfigValue (CInt 1000) (Some NonNegativeFloat)),
      (''set_cover_iterlim'', ConfigValue (CInt 8) (Some NonNegativeInt)),
      (''master_problem_transformation'', ConfigValue (CStr ''gdp.bigm'') None),
      (''call_before_master_solve'', ConfigValue (CCallback ''_DoNothing'') None),
      (''call_after_master_solve'', ConfigValue (CCallback ''_DoNothing'') None),
      (''subproblem_initialization_method'',
         ConfigValue (CCallback ''restore_vars_to_original_values'') None),
      (''call_before_subproblem_solve'', ConfigValue (CCallback ''_DoNothing'') None),
      (''call_after_subproblem_solve'', ConfigValue (CCallback ''_DoNothing'') None),
      (''call_after_subproblem_feasible'', ConfigValue (CCallback ''_DoNothing'') None),
      (''round_discrete_vars'', ConfigValue (CBool True) None),
      (''force_subproblem_nlp'', ConfigValue (CBool False) None),
      (''mip_presolve'', ConfigValue (CBool True) (Some Fn_bool)),
      (''subproblem_presolve'', ConfigValue (CBool True) (Some Fn_bool)),
      (''max_fbbt_iterations'', ConfigValue (CInt 3) (Some PositiveInt)),
      (''tighten_nlp_var_bounds'', ConfigValue (CBool False) (Some Fn_bool)),
      (''calc_disjunctive_bounds'', ConfigValue (CBool False) (Some Fn_bool)),
      (''obbt_disjunctive_bounds'', ConfigValue (CBool False) (Some Fn_bool))]"

definition add_OA_configs :: "gdpopt_env \<Rightarrow> (string \<times> 'f) list \<Rightarrow> config \<Rightarrow> (exn + pyobj) \<times> config" where
  "add_OA_configs G valid_init_strategies CONFIG =
     declare_all G (OA_configs valid_init_strategies) CONFIG"

definition BB_configs :: "(string \<times> cfg_entry) list" where
  "BB_configs =
     [(''check_sat'', ConfigValue (CBool False) (Some Fn_bool)),
      (''solve_local_rnGDP'', ConfigValue (CBool False) (Some Fn_bool))]"

definition add_BB_configs :: "gdpopt_env \<Rightarrow> config \<Rightarrow> (exn + pyobj) \<times> config" where
  "add_BB_configs G CONFIG = declare_all G BB_configs CONFIG"

definition mip_solver_configs :: "(string \<times> cfg_entry) list" where
  "mip_solver_configs =
     [(''mip_solver'', ConfigValue (CStr ''gurobi'') (Some Fn_valid_solvers)),
      (''mip_solver_args'', ConfigBlock True)]"

definition add_mip_solver_configs :: "gdpopt_env \<Rightarrow> config \<Rightarrow> (exn + pyobj) \<times> config" where
  "add_mip_solver_configs G CONFIG = declare_all G mip_solver_configs CONFIG"

definition nlp_solver_configs :: "(string \<times> cfg_entry) list" where
  "nlp_solver_configs =
     [(''nlp_solver'', ConfigValue (CStr ''ipopt'') (Some Fn_valid_solvers)),
      (''nlp_solver_args'', ConfigBlock True),
      (''minlp_solver'', ConfigValue (CStr ''baron'') (Some Fn_valid_solvers)),
      (''minlp_solver_args'', ConfigBlock True),
      (''local_minlp_solver'', ConfigValue (CStr ''bonmin'') (Some Fn_valid_solvers)),
      (''local_minlp_solver_args'', ConfigBlock True)]"

definition add_nlp_solver_configs :: "gdpopt_env \<Rightarrow> config \<Rightarrow> (exn + pyobj) \<times> config" where
  "add_nlp_solver_configs G CONFIG = declare_all G nlp_solver_configs CONFIG"

definition tolerance_configs :: "(string \<times> cfg_entry) list" where
  "tolerance_configs =
     [(''bound_tolerance'', ConfigValue (CFloat (1 / 10 ^ 6)) (Some NonNegativeFloat)),
      (''small_dual_tolerance'', ConfigValue (CFloat (1 / 10 ^ 8)) None),
      (''integer_tolerance'', ConfigValue (CFloat (1 / 10 ^ 5)) None),
      (''constraint_tolerance'', ConfigValue (CFloat (1 / 10 ^ 6)) None),
      (''variable_tolerance'', ConfigValue (CFloat (1 / 10 ^ 8)) None),
      (''zero_tolerance'', ConfigValue (CFloat (1 / 10 ^ 15)) None)]"

definition add_tolerance_configs :: "gdpopt_env \<Rightarrow> config \<Rightarrow> (exn + pyobj) \<times> config" where
  "add_tolerance_configs G CONFIG = declare_all G tolerance_configs CONFIG"

section \<open>\<open>appsi/plugins.py\<close>\<close>

text \<open>
  A factory is represented by the registrations made on it, in order: each
  \<open>Factory.register(name, doc)(cls)\<close> appends the name, the doc string and the class.
\<close>

datatype appsi_class = AppsiBuilder | Gurobi | Ipopt | Cbc | Cplex | Highs

type_synonym registration = "string \<times> string option \<times> appsi_class"

record factories =
  ExtensionBuilderFactory :: "registration list"
  appsi_SolverFactory :: "registration list"

definition register :: "registration list \<Rightarrow> string \<Rightarrow> string option \<Rightarrow> appsi_class \<Rightarrow> registration list" where
  "register factory name doc cls = factory @ [(name, doc, cls)]"

definition load :: "factories \<Rightarrow> factories" where
  "load F =
     (let F = F\<lparr>ExtensionBuilderFactory :=
                 register (ExtensionBuilderFactory F) ''appsi'' None AppsiBuilder\<rparr>;
          F = F\<lparr>appsi_SolverFactory := register (appsi_SolverFactory F) ''gurobi''
                 (Some ''Automated persistent interface to Gurobi'') Gurobi\<rparr>;
          F = F\<lparr>appsi_SolverFactory := register (appsi_SolverFactory F) ''cplex''
                 (Some ''Automated persistent interface to Cplex'') Cplex\<rparr>;
          F = F\<lparr>appsi_SolverFactory := register (appsi_SolverFactory F) ''ipopt''
                 (Some ''Automated persistent interface to Ipopt'') Ipopt\<rparr>;
          F = F\<lparr>appsi_SolverFactory := register (appsi_SolverFactory F) ''cbc''
                 (Some ''Automated persistent interface to Cbc'') Cbc\<rparr>;
          F = F\<lparr>appsi_SolverFactory := register (appsi_SolverFactory F) ''highs''
                 (Some ''Automated persistent interface to Highs'') Highs\<rparr>
      in F)"

section \<open>\<open>pynumero/algorithms/solvers/scipy_solvers.py\<close>\<close>

text \<open>
  A Pyomo model is a block, represented by its declared components, each under the key
  it was added with. Of a component it matters here only whether it is an objective,
  active or not, or a sub-block, active or not, with components of its own.
  \<open>component_data_objects\<close>, \<open>add_component\<close> and \<open>del_component\<close> are methods
  of Pyomo's blocks: the first, as \<open>solve\<close> calls it, lists the active objectives of
  the block and of its active sub-blocks, the second declares a component under a key,
  the third removes the component declared under a key.
\<close>

datatype component =
    Objective bool pyobj
  | Block bool "(pyobj \<times> component) list"
  | OtherComponent

type_synonym pyomo_model = "(pyobj \<times> component) list"

fun active_objectives :: "component \<Rightarrow> component list" where
  "active_objectives (Objective active e) = (if active then [Objective active e] else [])"
| "active_objectives (Block active cs) =
     (if active then concat (map (\<lambda>d. active_objectives (snd d)) cs) else [])"
| "active_objectives OtherComponent = []"

definition component_data_objects_Objective :: "pyomo_model \<Rightarrow> component list" where
  "component_data_objects_Objective model =
     concat (map (\<lambda>d. active_objectives (snd d)) model)"

definition add_component :: "pyomo_model \<Rightarrow> pyobj \<Rightarrow> component \<Rightarrow> pyomo_model" where
  "add_component model k c = model @ [(k, c)]"

definition del_component :: "pyomo_model \<Rightarrow> pyobj \<Rightarrow> pyomo_model" where
  "del_component model k = filter (\<lambda>d. fst d \<noteq> k) model"

text \<open>The names bound at module level in \<open>scipy_solvers.py\<close>.\<close>

definition scipy_solvers_globals :: "string list" where
  "scipy_solvers_globals =
     [''Objective'', ''unique_component_name'', ''PyomoNLP'', ''_SquareNlpSolverBase'',
      ''sp'', ''ScipyRootSolver'', ''FsolveNlpSolver'', ''RootNlpSolver'']"

text \<open>
  \<open>unique_component_name\<close> and the constructor \<open>PyomoNLP\<close> are not among the
  sources; they are parameters. The constructor may raise.
\<close>

record pynumero =
  unique_component_name :: "pyomo_model \<Rightarrow> string \<Rightarrow> string"
  PyomoNLP :: "pyomo_model \<Rightarrow> exn + pyobj"

text \<open>
  \<open>ScipyRootSolver.solve(model)\<close>, in three parts: the first \<open>if\<close>, which prepares
  the model; the construction of the NLP; the second \<open>if\<close>. The result is what the
  call returns or raises, and the model as the call leaves it.
\<close>

definition solve_add_objective :: "pynumero \<Rightarrow> pyomo_model \<Rightarrow> exn + pyomo_model" where
  "solve_add_objective P model =
     (let obj_name = unique_component_name P model ''_obj'';
          locals = [(''model'', Opaque ''model''), (''active_objs'', Opaque ''active_objs''),
                    (''obj_name'', PyStr obj_name)]
      in case name_lookup locals scipy_solvers_globals ''pyo'' of
           Inl e \<Rightarrow> Inl e
         | Inr pyo \<Rightarrow>
             (let obj = Objective True (Native 0) in
              case name_lookup (locals @ [(''obj'', Opaque ''obj'')])
                     scipy_solvers_globals ''name'' of
                Inl e \<Rightarrow> Inl e
              | Inr name \<Rightarrow> Inr (add_component model name obj)))"

definition ScipyRootSolver_solve :: "pynumero \<Rightarrow> pyomo_model \<Rightarrow> (exn + pyobj) \<times> pyomo_model" where
  "ScipyRootSolver_solve P model =
     (let active_objs = component_data_objects_Objective model in
      case (if length active_objs = 0 then solve_add_objective P model else Inr model) of
        Inl e \<Rightarrow> (Inl e, model)
      | Inr model1 \<Rightarrow>
          (case PyomoNLP P model1 of
             Inl e \<Rightarrow> (Inl e, model1)
           | Inr nlp \<Rightarrow>
               (Inr PyNone,
                if length active_objs = 0
                then del_component model1 (PyStr (unique_component_name P model ''_obj''))
                else model1)))"

section \<open>\<open>xpress_persistent.py\<close>: the persistent interface\<close>

text \<open>
  The calls that \<open>XpressPersistent\<close> makes on the Xpress problem object
  \<open>self._solver_model\<close>, with their arguments.
\<close>

datatype xcall =
    DelConstraint pyobj
  | DelSOS pyobj
  | DelVariable pyobj
  | Chgbounds "pyobj list" "string list" "pyobj list"
  | Chgcoltype "pyobj list" "string list"
  | Addcols "pyobj list" "nat list" "pyobj list" "pyobj list" "pyobj list" "pyobj list"
      "string list" "string list"
  | GetIndexFromName nat string
  | GetVariable pyobj
  | GetAttrib "pyobj list"
  | SetControl "pyobj list"
  | GetControl "pyobj list"
  | Write pyobj pyobj

text \<open>
  The state that the methods read and change: the attributes of the
  \<open>XpressPersistent\<close> object, and the \<open>expr\<close> and \<open>_body\<close> attributes of the Pyomo
  objectives and constraints, by identity. The Xpress problem is represented by the
  calls made on it so far. \<open>active_objective\<close> is what
  \<open>find_active_objective(self._pyomo_model, True)\<close> returns or raises
  (\<open>pyomo.pysp.phutils\<close> is not among the sources).
\<close>

record xpress_persistent =
  solver_model :: "xcall list"
  xpress_infinity :: real
  symbol_map :: "(nat \<times> string) list"
  pyomo_var_to_solver_var_map :: "nat \<rightharpoonup> pyobj"
  solver_var_to_pyomo_var_map :: "pyobj \<rightharpoonup> nat"
  pyomo_con_to_solver_con_map :: "nat \<rightharpoonup> pyobj"
  vars_referenced_by_con :: "nat \<rightharpoonup> nat set"
  referenced_variables :: "nat \<rightharpoonup> nat"
  active_objective :: "exn + pyobj"
  obj_expr :: "nat \<Rightarrow> pyobj"
  con_body :: "nat \<Rightarrow> pyobj"

text \<open>
  What is outside the sources: the Pyomo expression functions, the symbol map's
  \<open>getSymbol\<close> (it returns the symbol and the symbol map it leaves), and the Xpress
  bindings, given by the value \<open>respond h c\<close> that the call \<open>c\<close> returns on a problem
  with call history \<open>h\<close>.
\<close>

record xpress_env = pyomo_expr +
  getSymbol :: "(nat \<times> string) list \<Rightarrow> pyomo_var \<Rightarrow> string \<times> (nat \<times> string) list"
  respond :: "xcall list \<Rightarrow> xcall \<Rightarrow> pyobj"

definition solver_call :: "xpress_env \<Rightarrow> xpress_persistent \<Rightarrow> xcall \<Rightarrow> pyobj \<times> xpress_persistent" where
  "solver_call E s c = (respond E (solver_model s) c, s\<lparr>solver_model := solver_model s @ [c]\<rparr>)"

fun py_of_option :: "real option \<Rightarrow> pyobj" where
  "py_of_option None = PyNone"
| "py_of_option (Some r) = Native r"

definition remove_constraint :: "xpress_env \<Rightarrow> xpress_persistent \<Rightarrow> pyobj \<Rightarrow> (exn + pyobj) \<times> xpress_persistent" where
  "remove_constraint E s solver_con = (Inr PyNone, snd (solver_call E s (DelConstraint solver_con)))"

definition remove_sos_constraint :: "xpress_env \<Rightarrow> xpress_persistent \<Rightarrow> pyobj \<Rightarrow> (exn + pyobj) \<times> xpress_persistent" where
  "remove_sos_constraint E s solver_sos_con = (Inr PyNone, snd (solver_call E s (DelSOS solver_sos_con)))"

definition remove_var :: "xpress_env \<Rightarrow> xpress_persistent \<Rightarrow> pyobj \<Rightarrow> (exn + pyobj) \<times> xpress_persistent" where
  "remove_var E s solver_var = (Inr PyNone, snd (solver_call E s (DelVariable solver_var)))"

definition xpress_chgcoltype_from_var :: "pyomo_var \<Rightarrow> exn + string" where
  "xpress_chgcoltype_from_var var =
     (if is_binary var then Inr ''B''
      else if is_integer var then Inr ''I''
      else if is_continuous var then Inr ''C''
      else Inl (ValueError ''Variable domain type is not recognized''))"

definition update_var :: "xpress_env \<Rightarrow> xpress_persistent \<Rightarrow> pyomo_var \<Rightarrow> (exn + pyobj) \<times> xpress_persistent" where
  "update_var E s var =
     (case pyomo_var_to_solver_var_map s (var_id var) of
        None \<Rightarrow> (Inl (ValueError ''The Var provided to compile_var needs to be added first''), s)
      | Some xpress_var \<Rightarrow>
          (case xpress_chgcoltype_from_var var of
             Inl e \<Rightarrow> (Inl e, s)
           | Inr qctype \<Rightarrow>
               (let bounds =
                      (if is_fixed var
                       then [py_of_option (var_value var), py_of_option (var_value var)]
                       else [case lb var of Some l \<Rightarrow> Native l
                                          | None \<Rightarrow> Native (- xpress_infinity s),
                             case ub var of Some u \<Rightarrow> Native u
                                          | None \<Rightarrow> Native (xpress_infinity s)]);
                    s1 = snd (solver_call E s
                                (Chgbounds [xpress_var, xpress_var] [''L'', ''U''] bounds));
                    s2 = snd (solver_call E s1 (Chgcoltype [xpress_var] [qctype]))
                in (Inr PyNone, s2))))"

text \<open>
  \<open>add_column\<close>, in three parts. First the objective: \<open>obj.expr += obj_term*var\<close>
  unless \<open>obj_term\<close> is a native zero. An object without an \<open>expr\<close> attribute, such
  as the \<open>None\<close> returned when no objective is active, raises \<open>AttributeError\<close>.
\<close>

definition add_column_objective :: "xpress_persistent \<Rightarrow> pyomo_var \<Rightarrow> pyobj \<Rightarrow> (exn + pyobj) \<times> xpress_persistent" where
  "add_column_objective s var obj_term =
     (if class_in_native_numeric_types obj_term \<and> obj_term = Native 0 then (Inr PyNone, s)
      else case active_objective s of
        Inl e \<Rightarrow> (Inl e, s)
      | Inr (ObjectiveData i) \<Rightarrow>
          (Inr PyNone,
           s\<lparr>obj_expr := (obj_expr s)
                (i := SumExpression (obj_expr s i) (ProductExpression obj_term (VarData var)))\<rparr>)
      | Inr obj \<Rightarrow> (Inl (AttributeError ''expr''), s))"

text \<open>
  The loop over \<open>zip(coefficients, constraints)\<close>, with the two lists it builds as
  accumulators. A constraint is given by its identity.
\<close>

fun add_column_loop :: "xpress_env \<Rightarrow> xpress_persistent \<Rightarrow> pyomo_var \<Rightarrow> (pyobj \<times> nat) list \<Rightarrow>
    pyobj list \<Rightarrow> pyobj list \<Rightarrow> (exn + pyobj list \<times> pyobj list) \<times> xpress_persistent" where
  "add_column_loop E s var [] coeff_list constr_list = (Inr (coeff_list, constr_list), s)"
| "add_column_loop E s var ((val, c) # rest) coeff_list constr_list =
     (let s1 = s\<lparr>con_body := (con_body s)
                  (c := SumExpression (con_body s c) (ProductExpression val (VarData var)))\<rparr>
      in case vars_referenced_by_con s1 c of
           None \<Rightarrow> (Inl KeyError, s1)
         | Some vs \<Rightarrow>
             (let s2 = s1\<lparr>vars_referenced_by_con :=
                            (vars_referenced_by_con s1)(c \<mapsto> insert (var_id var) vs)\<rparr>
              in case convert_to_const E val of
                   Inl e \<Rightarrow> (Inl e, s2)
                 | Inr cval \<Rightarrow>
                     (case pyomo_con_to_solver_con_map s2 c of
                        None \<Rightarrow> (Inl KeyError, s2)
                      | Some solver_con \<Rightarrow>
                          add_column_loop E s2 var rest
                            (coeff_list @ [cval]) (constr_list @ [solver_con]))))"

text \<open>
  The bounds of the new column: the declared bounds, minus or plus the Xpress infinity
  for an absent one, and the variable's value for both when it is fixed.
\<close>

definition add_column_bounds :: "xpress_env \<Rightarrow> xpress_persistent \<Rightarrow> pyomo_var \<Rightarrow> exn + pyobj \<times> pyobj" where
  "add_column_bounds E s var =
     (let lb0 = (case lb var of Some l \<Rightarrow> Native l | None \<Rightarrow> Native (- xpress_infinity s));
          ub0 = (case ub var of Some u \<Rightarrow> Native u | None \<Rightarrow> Native (xpress_infinity s))
      in if is_fixed var
         then (case value_of E (py_of_option (var_value var)) of
                 Inl e \<Rightarrow> Inl e
               | Inr l \<Rightarrow>
                   (case value_of E (py_of_option (var_value var)) of
                      Inl e \<Rightarrow> Inl e
                    | Inr u \<Rightarrow> Inr (l, u)))
         else Inr (lb0, ub0))"

text \<open>
  The set-up of the new column, the \<open>addcols\<close> call, the look-up of the variable that
  Xpress created, and the bookkeeping.
\<close>

definition add_column_solver :: "xpress_env \<Rightarrow> xpress_persistent \<Rightarrow> pyomo_var \<Rightarrow> pyobj \<Rightarrow>
    pyobj list \<Rightarrow> pyobj list \<Rightarrow> (exn + pyobj) \<times> xpress_persistent" where
  "add_column_solver E s var obj_term coeff_list constr_list =
     (let varname = fst (getSymbol E (symbol_map s) var);
          s1 = s\<lparr>symbol_map := snd (getSymbol E (symbol_map s) var)\<rparr>
      in case xpress_chgcoltype_from_var var of
           Inl e \<Rightarrow> (Inl e, s1)
         | Inr vartype \<Rightarrow>
             (case add_column_bounds E s1 var of
                Inl e \<Rightarrow> (Inl e, s1)
              | Inr (lb1, ub1) \<Rightarrow>
                  (let s2 = snd (solver_call E s1
                              (Addcols [obj_term] [0, length coeff_list] constr_list
                                 coeff_list [lb1] [ub1] [varname] [vartype]));
                       index = fst (solver_call E s2 (GetIndexFromName 2 varname));
                       s3 = snd (solver_call E s2 (GetIndexFromName 2 varname));
                       xpress_var = fst (solver_call E s3 (GetVariable index));
                       s4 = snd (solver_call E s3 (GetVariable index))
                   in (Inr PyNone,
                       s4\<lparr>pyomo_var_to_solver_var_map :=
                             (pyomo_var_to_solver_var_map s4)(var_id var \<mapsto> xpress_var),
                           solver_var_to_pyomo_var_map :=
                             (solver_var_to_pyomo_var_map s4)(xpress_var \<mapsto> var_id var),
                           referenced_variables :=
                             (referenced_variables s4)(var_id var \<mapsto> length coeff_list)\<rparr>))))"

definition add_column :: "xpress_env \<Rightarrow> xpress_persistent \<Rightarrow> pyomo_var \<Rightarrow> pyobj \<Rightarrow> nat list \<Rightarrow>
    pyobj list \<Rightarrow> (exn + pyobj) \<times> xpress_persistent" where
  "add_column E s var obj_term constraints coefficients =
     (case add_column_objective s var obj_term of
        (Inl e, s1) \<Rightarrow> (Inl e, s1)
      | (Inr u, s1) \<Rightarrow>
          (case convert_to_const E obj_term of
             Inl e \<Rightarrow> (Inl e, s1)
           | Inr obj_coef \<Rightarrow>
               (case add_column_loop E s1 var (zip coefficients constraints) [] [] of
                  (Inl e, s2) \<Rightarrow> (Inl e, s2)
                | (Inr (coeff_list, constr_list), s2) \<Rightarrow>
                    add_column_solver E s2 var obj_term coeff_list constr_list)))"

text \<open>
  The pass-through methods. \<open>*args\<close> is the list of the positional arguments;
  \<open>write\<close> has the default \<open>''\<close> for \<open>flags\<close>.
\<close>

definition get_xpress_attribute :: "xpress_env \<Rightarrow> xpress_persistent \<Rightarrow> pyobj list \<Rightarrow> (exn + pyobj) \<times> xpress_persistent" where
  "get_xpress_attribute E s args =
     (let (r, s1) = solver_call E s (GetAttrib args) in (Inr r, s1))"

definition set_xpress_control :: "xpress_env \<Rightarrow> xpress_persistent \<Rightarrow> pyobj list \<Rightarrow> (exn + pyobj) \<times> xpress_persistent" where
  "set_xpress_control E s args =
     (let (r, s1) = solver_call E s (SetControl args) in (Inr PyNone, s1))"

definition get_xpress_control :: "xpress_env \<Rightarrow> xpress_persistent \<Rightarrow> pyobj list \<Rightarrow> (exn + pyobj) \<times> xpress_persistent" where
  "get_xpress_control E s args =
     (let (r, s1) = solver_call E s (GetControl args) in (Inr r, s1))"

definition xpress_write :: "xpress_env \<Rightarrow> xpress_persistent \<Rightarrow> pyobj \<Rightarrow> pyobj option \<Rightarrow> (exn + pyobj) \<times> xpress_persistent" where
  "xpress_write E s filename flags =
     (let fl = (case flags of None \<Rightarrow> PyStr [] | Some f \<Rightarrow> f);
          (r, s1) = solver_call E s (Write filename fl)
      in (Inr PyNone, s1))"


section \<open>Properties of the bookkeeping maps, and example inputs\<close>

text \<open>Two dictionaries are mutual inverses when each entry of one is the reversed entry of the other.\<close>

definition mutual_inverses :: "('a \<rightharpoonup> 'b) \<Rightarrow> ('b \<rightharpoonup> 'a) \<Rightarrow> bool" where
  "mutual_inverses f g = (\<forall>a b. (f a = Some b) = (g b = Some a))"

text \<open>
  Example inputs, on which the theorems below are instantiated: an environment in which
  \<open>value\<close> returns native values as they are and a \<open>Param\<close>'s value, and Xpress
  hands out a new object for each variable it is asked for; an interface that holds one
  variable (identity 7) and two constraints (identities 0 and 1); and an integer
  variable with lower bound 0 and no upper bound.
\<close>

definition example_env :: xpress_env where
  "example_env =
     \<lparr>value_of = (\<lambda>obj. case obj of
                     Native r \<Rightarrow> Inr (Native r)
                   | PyNone \<Rightarrow> Inr PyNone
                   | ParamData i (Some r) \<Rightarrow> Inr (Native r)
                   | _ \<Rightarrow> Inl (ValueError ''No value'')),
      evaluate_expression = (\<lambda>obj. Inl (ValueError ''No value'')),
      getSymbol = (\<lambda>symbols var. (''x'', symbols)),
      respond = (\<lambda>h c. case c of
                     GetIndexFromName t n \<Rightarrow> Native 0
                   | GetVariable i \<Rightarrow> SolverObj (length h)
                   | _ \<Rightarrow> PyNone)\<rparr>"

definition example_interface :: xpress_persistent where
  "example_interface =
     \<lparr>solver_model = [], xpress_infinity = 10 ^ 20, symbol_map = [],
      pyomo_var_to_solver_var_map = [7 \<mapsto> SolverObj 0],
      solver_var_to_pyomo_var_map = [SolverObj 0 \<mapsto> 7],
      pyomo_con_to_solver_con_map = [0 \<mapsto> SolverObj 100, 1 \<mapsto> SolverObj 101],
      vars_referenced_by_con = [0 \<mapsto> {}, 1 \<mapsto> {}],
      referenced_variables = Map.empty,
      active_objective = Inr (ObjectiveData 0),
      obj_expr = (\<lambda>i. Native 0), con_body = (\<lambda>c. Native 0)\<rparr>"

definition example_var :: "nat \<Rightarrow> pyomo_var" where
  "example_var i =
     \<lparr>var_id = i, is_binary = False, is_integer = True, is_continuous = False,
      is_fixed = False, var_value = None, lb = Some 0, ub = None\<rparr>"

text \<open>
  An environment for the configuration builders in which every solver name but
  \<open>bonmin\<close> yields a solver that is neither unknown nor persistent, and \<open>In\<close>
  accepts the strings of its list.
\<close>

definition example_gdpopt_env :: gdpopt_env where
  "example_gdpopt_env =
     \<lparr>solver_factory = (\<lambda>val. if val = PyStr ''bonmin'' then [UnknownSolver]
                                else [OtherClass ''SystemCallSolver'']),
      py_str = (\<lambda>val. case val of PyStr s \<Rightarrow> s | _ \<Rightarrow> ''?''),
      library_domain = (\<lambda>d v. case d of
                          In keys \<Rightarrow> (case v of
                              CStr s \<Rightarrow> if s \<in> set keys then Inr v
                                        else Inl (ValueError ''value not in domain'')
                            | _ \<Rightarrow> Inl (ValueError ''value not in domain''))
                        | _ \<Rightarrow> Inr v)\<rparr>"

section \<open>Theorems\<close>

subsection \<open>\<open>_convert_to_const\<close>\<close>

lemma convert_to_const_native: "convert_to_const E (Native r) = Inr (Native r)"
  by (simp add: convert_to_const_def)

lemma convert_to_const_other:
  "is_expression_type val = Inr False \<Longrightarrow> convert_to_const E val = value_of E val"
  by (cases val) (simp_all add: convert_to_const_def)

text \<open>
  C5. The claim says that \<open>_convert_to_const\<close> returns the evaluated value of \<open>val\<close>
  when \<open>val\<close> is an expression. The code evaluates the unbound name \<open>obj_term\<close>
  there instead of \<open>val\<close>: for every expression, here a product or a sum, the call
  raises \<open>NameError\<close>, whatever \<open>evaluate_expression\<close> does.
\<close>

theorem convert_to_const_expression:
  "convert_to_const E (ProductExpression a b) = Inl (NameError ''obj_term'') \<and>
   convert_to_const E (SumExpression a b) = Inl (NameError ''obj_term'')"
  by (simp add: convert_to_const_def name_lookup_def xpress_persistent_globals_def)

subsection \<open>\<open>_valid_solvers\<close>\<close>

text \<open>
  For every value whose message can be formatted, which is every value but a tuple of
  a length other than one, \<open>_valid_solvers(val)\<close> raises \<open>ValueError\<close> exactly when
  the object that \<open>SolverFactory(val)\<close> yields is an \<open>UnknownSolver\<close> or a
  \<open>PersistentSolver\<close>, it raises nothing else, and in every other case it returns
  \<open>val\<close> unchanged.
\<close>

lemma valid_solvers_formattable:
  assumes "percent_format str val = Inr v"
  shows "((\<exists>m. valid_solvers SolverFactory str val = Inl (ValueError m)) =
      (isinstance (SolverFactory val) UnknownSolver \<or>
       isinstance (SolverFactory val) PersistentSolver)) \<and>
   ((\<exists>e. valid_solvers SolverFactory str val = Inl e) =
      (\<exists>m. valid_solvers SolverFactory str val = Inl (ValueError m))) \<and>
   (if isinstance (SolverFactory val) UnknownSolver \<or>
       isinstance (SolverFactory val) PersistentSolver
    then \<exists>m. valid_solvers SolverFactory str val = Inl (ValueError m)
    else valid_solvers SolverFactory str val = Inr val)"
  using assms by (auto simp: valid_solvers_def Let_def)

lemma valid_solvers_accepts:
  "\<not> isinstance (SolverFactory val) UnknownSolver \<Longrightarrow>
   \<not> isinstance (SolverFactory val) PersistentSolver \<Longrightarrow>
   valid_solvers SolverFactory str val = Inr val"
  by (simp add: valid_solvers_def Let_def)

text \<open>
  C3. The claim says that, for every value, \<open>_valid_solvers(val)\<close> raises
  \<open>ValueError\<close> when \<open>SolverFactory(val)\<close> yields an \<open>UnknownSolver\<close> or a
  \<open>PersistentSolver\<close>. For the tuple \<open>(1, 2)\<close> the code raises \<open>TypeError\<close>
  there: the message that the \<open>ValueError\<close> is to carry is built with
  \<open>'%s' % val\<close>, which takes the tuple for two arguments of a format that has one.
\<close>

theorem valid_solvers_tuple:
  "valid_solvers SolverFactory str (PyTuple [Native 1, Native 2]) =
     (if isinstance (SolverFactory (PyTuple [Native 1, Native 2])) UnknownSolver \<or>
         isinstance (SolverFactory (PyTuple [Native 1, Native 2])) PersistentSolver
      then Inl (TypeError ''not all arguments converted during string formatting'')
      else Inr (PyTuple [Native 1, Native 2]))"
  by (simp add: valid_solvers_def Let_def)

subsection \<open>The GDPopt configuration builders\<close>

lemmas cfg_defs = construct_def domain_call_def valid_solvers_def isinstance_def
  CONFIG_declare_def Let_def example_gdpopt_env_def

lemma construct_Inr: "construct G args = Inr entry \<Longrightarrow> entry = args"
  by (auto simp: construct_def split: cfg_entry.splits option.splits if_splits sum.splits)

text \<open>
  A sequence of declarations that completes has appended every one of them, and none
  of their names was in the block before.
\<close>

lemma declare_all_success:
  "declare_all G ds CONFIG = (Inr r, CONFIG') \<Longrightarrow>
     CONFIG' = CONFIG @ ds \<and> (\<forall>n \<in> fst ` set ds. n \<notin> fst ` set CONFIG)"
proof (induction ds arbitrary: CONFIG)
  case Nil
  then show ?case by simp
next
  case (Cons d ds)
  obtain name args where d: "d = (name, args)" by (cases d)
  from Cons.prems d obtain entry where c: "construct G args = Inr entry"
    by (cases "construct G args") auto
  then have e: "entry = args" by (rule construct_Inr)
  from Cons.prems d c e have fresh: "name \<notin> fst ` set CONFIG"
    by (auto simp: CONFIG_declare_def split: if_splits)
  with Cons.prems d c e have "declare_all G ds (CONFIG @ [(name, args)]) = (Inr r, CONFIG')"
    by (simp add: CONFIG_declare_def)
  from Cons.IH[OF this] fresh d show ?case by auto
qed

lemma declare_all_new:
  assumes "declare_all G ds CONFIG = (Inr r, CONFIG')" and "n \<in> fst ` set ds"
  shows "map_of CONFIG' n = map_of ds n"
proof -
  from declare_all_success[OF assms(1)] assms(2)
  have c: "CONFIG' = CONFIG @ ds" and "n \<notin> fst ` set CONFIG" by auto
  then have "map_of CONFIG n = None" by (simp add: map_of_eq_None_iff)
  with c show ?thesis by (simp add: map_add_def)
qed

lemma declare_all_keeps:
  assumes "declare_all G ds CONFIG = (Inr r, CONFIG')" and "map_of CONFIG n = Some e"
  shows "map_of CONFIG' n = Some e"
proof -
  from declare_all_success[OF assms(1)] have "CONFIG' = CONFIG @ ds" by simp
  with assms(2) show ?thesis by (simp add: map_add_def)
qed

text \<open>
  The builders do not always complete. Where \<open>SolverFactory('bonmin')\<close> yields an
  \<open>UnknownSolver\<close>, \<open>_add_nlp_solver_configs\<close> raises when it builds the entry of
  \<open>local_minlp_solver\<close> and leaves the option undeclared; and a builder that runs a
  second time on a block raises at its first declaration.
\<close>

lemma add_nlp_solver_configs_unknown_default:
  "add_nlp_solver_configs example_gdpopt_env [] =
     (Inl (ValueError ''invalid value for configuration''),
      [(''nlp_solver'', ConfigValue (CStr ''ipopt'') (Some Fn_valid_solvers)),
       (''nlp_solver_args'', ConfigBlock True),
       (''minlp_solver'', ConfigValue (CStr ''baron'') (Some Fn_valid_solvers)),
       (''minlp_solver_args'', ConfigBlock True)])"
  by (simp add: add_nlp_solver_configs_def nlp_solver_configs_def cfg_defs)

lemma add_mip_solver_configs_twice:
  "add_mip_solver_configs example_gdpopt_env
       (snd (add_mip_solver_configs example_gdpopt_env [])) =
     (Inl (ValueError ''duplicate config''),
      [(''mip_solver'', ConfigValue (CStr ''gurobi'') (Some Fn_valid_solvers)),
       (''mip_solver_args'', ConfigBlock True)])"
  by (simp add: add_mip_solver_configs_def mip_solver_configs_def cfg_defs)

text \<open>
  C7. After \<open>_add_mip_solver_configs\<close>, \<open>_add_nlp_solver_configs\<close> and
  \<open>_add_OA_configs\<close> have run on a block, each to its end, the block holds
  \<open>mip_solver\<close>, \<open>nlp_solver\<close>, \<open>minlp_solver\<close> and \<open>local_minlp_solver\<close> with
  the defaults \<open>gurobi\<close>, \<open>ipopt\<close>, \<open>baron\<close> and \<open>bonmin\<close> and the domain
  \<open>_valid_solvers\<close>, and \<open>init_strategy\<close> with the default \<open>set_covering\<close> and
  the domain \<open>In(valid_init_strategies.keys())\<close>.
\<close>

theorem gdpopt_solver_defaults:
  assumes mip: "add_mip_solver_configs G CONFIG = (Inr r1, CONFIG1)"
      and nlp: "add_nlp_solver_configs G CONFIG1 = (Inr r2, CONFIG2)"
      and oa: "add_OA_configs G valid_init_strategies CONFIG2 = (Inr r3, CONFIG3)"
  shows "map_of CONFIG3 ''mip_solver'' =
           Some (ConfigValue (CStr ''gurobi'') (Some Fn_valid_solvers)) \<and>
         map_of CONFIG3 ''nlp_solver'' =
           Some (ConfigValue (CStr ''ipopt'') (Some Fn_valid_solvers)) \<and>
         map_of CONFIG3 ''minlp_solver'' =
           Some (ConfigValue (CStr ''baron'') (Some Fn_valid_solvers)) \<and>
         map_of CONFIG3 ''local_minlp_solver'' =
           Some (ConfigValue (CStr ''bonmin'') (Some Fn_valid_solvers)) \<and>
         map_of CONFIG3 ''init_strategy'' =
           Some (ConfigValue (CStr ''set_covering'')
                   (Some (In (map fst valid_init_strategies))))"
proof -
  note m = mip[unfolded add_mip_solver_configs_def]
  note n = nlp[unfolded add_nlp_solver_configs_def]
  note o = oa[unfolded add_OA_configs_def]
  have "map_of CONFIG1 ''mip_solver'' =
          Some (ConfigValue (CStr ''gurobi'') (Some Fn_valid_solvers))"
    using declare_all_new[OF m, of "''mip_solver''"] by (simp add: mip_solver_configs_def)
  then have 1: "map_of CONFIG3 ''mip_solver'' =
          Some (ConfigValue (CStr ''gurobi'') (Some Fn_valid_solvers))"
    by (intro declare_all_keeps[OF o] declare_all_keeps[OF n])
  have "map_of CONFIG2 ''nlp_solver'' =
          Some (ConfigValue (CStr ''ipopt'') (Some Fn_valid_solvers))"
    using declare_all_new[OF n, of "''nlp_solver''"] by (simp add: nlp_solver_configs_def)
  then have 2: "map_of CONFIG3 ''nlp_solver'' =
          Some (ConfigValue (CStr ''ipopt'') (Some Fn_valid_solvers))"
    by (rule declare_all_keeps[OF o])
  have "map_of CONFIG2 ''minlp_solver'' =
          Some (ConfigValue (CStr ''baron'') (Some Fn_valid_solvers))"
    using declare_all_new[OF n, of "''minlp_solver''"] by (simp add: nlp_solver_configs_def)
  then have 3: "map_of CONFIG3 ''minlp_solver'' =
          Some (ConfigValue (CStr ''baron'') (Some Fn_valid_solvers))"
    by (rule declare_all_keeps[OF o])
  have "map_of CONFIG2 ''local_minlp_solver'' =
          Some (ConfigValue (CStr ''bonmin'') (Some Fn_valid_solvers))"
    using declare_all_new[OF n, of "''local_minlp_solver''"]
    by (simp add: nlp_solver_configs_def)
  then have 4: "map_of CONFIG3 ''local_minlp_solver'' =
          Some (ConfigValue (CStr ''bonmin'') (Some Fn_valid_solvers))"
    by (rule declare_all_keeps[OF o])
  have 5: "map_of CONFIG3 ''init_strategy'' =
          Some (ConfigValue (CStr ''set_covering'')
                  (Some (In (map fst valid_init_strategies))))"
    using declare_all_new[OF o, of "''init_strategy''"] by (simp add: OA_configs_def)
  from 1 2 3 4 5 show ?thesis by simp
qed

text \<open>
  The theorem on an empty block, where every solver name yields a solver that is
  neither unknown nor persistent and \<open>set_covering\<close> is an initialization strategy:
  the three builders complete.
\<close>

theorem gdpopt_solver_defaults_witness:
  "add_mip_solver_configs
       (example_gdpopt_env\<lparr>solver_factory := (\<lambda>val. [OtherClass ''SystemCallSolver''])\<rparr>) [] =
     (Inr PyNone, mip_solver_configs) \<and>
   add_nlp_solver_configs
       (example_gdpopt_env\<lparr>solver_factory := (\<lambda>val. [OtherClass ''SystemCallSolver''])\<rparr>)
       mip_solver_configs =
     (Inr PyNone, mip_solver_configs @ nlp_solver_configs) \<and>
   add_OA_configs
       (example_gdpopt_env\<lparr>solver_factory := (\<lambda>val. [OtherClass ''SystemCallSolver''])\<rparr>)
       [(''set_covering'', ()), (''fix_disjuncts'', ())]
       (mip_solver_configs @ nlp_solver_configs) =
     (Inr PyNone, mip_solver_configs @ nlp_solver_configs @
        OA_configs [(''set_covering'', ()), (''fix_disjuncts'', ())]) \<and>
   map_of (mip_solver_configs @ nlp_solver_configs @
        OA_configs [(''set_covering'', ()), (''fix_disjuncts'', ())]) ''mip_solver'' =
     Some (ConfigValue (CStr ''gurobi'') (Some Fn_valid_solvers)) \<and>
   map_of (mip_solver_configs @ nlp_solver_configs @
        OA_configs [(''set_covering'', ()), (''fix_disjuncts'', ())]) ''nlp_solver'' =
     Some (ConfigValue (CStr ''ipopt'') (Some Fn_valid_solvers)) \<and>
   map_of (mip_solver_configs @ nlp_solver_configs @
        OA_configs [(''set_covering'', ()), (''fix_disjuncts'', ())]) ''minlp_solver'' =
     Some (ConfigValue (CStr ''baron'') (Some Fn_valid_solvers)) \<and>
   map_of (mip_solver_configs @ nlp_solver_configs @
        OA_configs [(''set_covering'', ()), (''fix_disjuncts'', ())]) ''local_minlp_solver'' =
     Some (ConfigValue (CStr ''bonmin'') (Some Fn_valid_solvers)) \<and>
   map_of (mip_solver_configs @ nlp_solver_configs @
        OA_configs [(''set_covering'', ()), (''fix_disjuncts'', ())]) ''init_strategy'' =
     Some (ConfigValue (CStr ''set_covering'')
             (Some (In [''set_covering'', ''fix_disjuncts''])))"
proof -
  let ?G = "example_gdpopt_env\<lparr>solver_factory := (\<lambda>val. [OtherClass ''SystemCallSolver''])\<rparr>"
  let ?V = "[(''set_covering'', ()), (''fix_disjuncts'', ())]"
  have 1: "add_mip_solver_configs ?G [] = (Inr PyNone, mip_solver_configs)"
    by (simp add: add_mip_solver_configs_def mip_solver_configs_def cfg_defs)
  have 2: "add_nlp_solver_configs ?G mip_solver_configs =
             (Inr PyNone, mip_solver_configs @ nlp_solver_configs)"
    by (simp add: add_nlp_solver_configs_def mip_solver_configs_def nlp_solver_configs_def
        cfg_defs)
  have 3: "add_OA_configs ?G ?V (mip_solver_configs @ nlp_solver_configs) =
             (Inr PyNone, mip_solver_configs @ nlp_solver_configs @ OA_configs ?V)"
    by (simp add: add_OA_configs_def mip_solver_configs_def nlp_solver_configs_def
        OA_configs_def cfg_defs)
  from gdpopt_solver_defaults [OF 1 2 3] 1 2 3 show ?thesis by simp
qed

subsection \<open>\<open>load\<close>\<close>

text \<open>
  C8. \<open>load()\<close> makes one registration on the \<open>ExtensionBuilderFactory\<close>,
  \<open>AppsiBuilder\<close> under \<open>appsi\<close>, and exactly five on the \<open>SolverFactory\<close>:
  \<open>Gurobi\<close>, \<open>Cplex\<close>, \<open>Ipopt\<close>, \<open>Cbc\<close> and \<open>Highs\<close> under \<open>gurobi\<close>,
  \<open>cplex\<close>, \<open>ipopt\<close>, \<open>cbc\<close> and \<open>highs\<close>.
\<close>

theorem load_registrations:
  "load F =
     F\<lparr>ExtensionBuilderFactory :=
         ExtensionBuilderFactory F @ [(''appsi'', None, AppsiBuilder)],
       appsi_SolverFactory := appsi_SolverFactory F @
         [(''gurobi'', Some ''Automated persistent interface to Gurobi'', Gurobi),
          (''cplex'', Some ''Automated persistent interface to Cplex'', Cplex),
          (''ipopt'', Some ''Automated persistent interface to Ipopt'', Ipopt),
          (''cbc'', Some ''Automated persistent interface to Cbc'', Cbc),
          (''highs'', Some ''Automated persistent interface to Highs'', Highs)]\<rparr>"
  by (simp add: load_def register_def Let_def)

subsection \<open>\<open>ScipyRootSolver.solve\<close>\<close>

lemma solve_no_active_objective:
  "component_data_objects_Objective model = [] \<Longrightarrow>
     ScipyRootSolver_solve P model = (Inl (NameError ''pyo''), model)"
  by (simp add: ScipyRootSolver_solve_def solve_add_objective_def name_lookup_def
      scipy_solvers_globals_def Let_def)

lemma solve_active_objective:
  "component_data_objects_Objective model \<noteq> [] \<Longrightarrow>
     snd (ScipyRootSolver_solve P model) = model"
  by (simp add: ScipyRootSolver_solve_def Let_def split: sum.splits)

text \<open>
  C6. The claim says that on a model with no active objective \<open>solve\<close> adds a zero
  objective, builds the NLP and deletes the objective again. The code names the
  objective class through \<open>pyo\<close>, which the module never imports: on a model whose
  only component is not an objective the call raises \<open>NameError\<close> before it adds
  anything, and before it builds the NLP.
\<close>

theorem solve_without_objective:
  "ScipyRootSolver_solve P [(PyStr ''x'', OtherComponent)] =
     (Inl (NameError ''pyo''), [(PyStr ''x'', OtherComponent)])"
  by (simp add: ScipyRootSolver_solve_def solve_add_objective_def
      component_data_objects_Objective_def name_lookup_def scipy_solvers_globals_def Let_def)

subsection \<open>The pass-through methods\<close>

text \<open>
  C2. \<open>get_xpress_attribute\<close> and \<open>get_xpress_control\<close> return what \<open>getAttrib\<close>
  and \<open>getControl\<close> return on the same arguments, \<open>set_xpress_control\<close> calls
  \<open>setControl\<close> and \<open>write\<close> calls \<open>write\<close> with the same arguments (the
  empty string for \<open>flags\<close> when it is left out); each makes that one call on the solver
  model and changes nothing else of the state.
\<close>

theorem xpress_pass_through:
  "get_xpress_attribute E s args =
      (Inr (respond E (solver_model s) (GetAttrib args)),
       s\<lparr>solver_model := solver_model s @ [GetAttrib args]\<rparr>) \<and>
   get_xpress_control E s args =
      (Inr (respond E (solver_model s) (GetControl args)),
       s\<lparr>solver_model := solver_model s @ [GetControl args]\<rparr>) \<and>
   set_xpress_control E s args =
      (Inr PyNone, s\<lparr>solver_model := solver_model s @ [SetControl args]\<rparr>) \<and>
   xpress_write E s filename (Some flags) =
      (Inr PyNone, s\<lparr>solver_model := solver_model s @ [Write filename flags]\<rparr>) \<and>
   xpress_write E s filename None =
      (Inr PyNone, s\<lparr>solver_model := solver_model s @ [Write filename (PyStr [])]\<rparr>)"
  by (simp add: get_xpress_attribute_def get_xpress_control_def set_xpress_control_def
      xpress_write_def solver_call_def)

subsection \<open>\<open>update_var\<close>\<close>

text \<open>
  C10. If the variable is not a key of \<open>_pyomo_var_to_solver_var_map\<close>, \<open>update_var\<close>
  raises \<open>ValueError\<close> and leaves the whole state, the solver model included, as it
  was.
\<close>

theorem update_var_not_added:
  "pyomo_var_to_solver_var_map s (var_id var) = None \<Longrightarrow>
     update_var E s var =
       (Inl (ValueError ''The Var provided to compile_var needs to be added first''), s)"
  by (simp add: update_var_def)

theorem update_var_not_added_witness:
  "pyomo_var_to_solver_var_map example_interface (var_id (example_var 3)) = None \<and>
   update_var example_env example_interface (example_var 3) =
     (Inl (ValueError ''The Var provided to compile_var needs to be added first''),
      example_interface)"
  using update_var_not_added [of example_interface "example_var 3" example_env]
  by (simp add: example_interface_def example_var_def)

text \<open>
  C4, as the claim states it, fails for a variable that was added and is neither
  binary, integer nor continuous: \<open>update_var\<close> raises \<open>ValueError\<close> and calls
  neither \<open>chgbounds\<close> nor \<open>chgcoltype\<close>.
\<close>

theorem update_var_unrecognized_domain:
  "pyomo_var_to_solver_var_map example_interface
      (var_id ((example_var 7)\<lparr>is_integer := False\<rparr>)) = Some (SolverObj 0) \<and>
   update_var example_env example_interface ((example_var 7)\<lparr>is_integer := False\<rparr>) =
     (Inl (ValueError ''Variable domain type is not recognized''), example_interface)"
  by (simp add: update_var_def xpress_chgcoltype_from_var_def example_interface_def
      example_var_def)

text \<open>
  C4, amended. For a variable that was added and is binary, integer or continuous,
  \<open>update_var\<close> calls \<open>chgbounds\<close> with the variable's value as both bounds when it
  is fixed, and otherwise with its declared bounds, minus or plus the Xpress infinity
  for an absent one, and then \<open>chgcoltype\<close> with \<open>B\<close>, \<open>I\<close> or \<open>C\<close>, tested in
  that order; it makes no other call. For a variable that was added and is none of the
  three it raises \<open>ValueError\<close> and makes no call.
\<close>

theorem update_var_calls:
  assumes "pyomo_var_to_solver_var_map s (var_id var) = Some xpress_var"
  shows "update_var E s var =
    (if is_binary var \<or> is_integer var \<or> is_continuous var
     then (Inr PyNone, s\<lparr>solver_model := solver_model s @
        [Chgbounds [xpress_var, xpress_var] [''L'', ''U'']
           (if is_fixed var then [py_of_option (var_value var), py_of_option (var_value var)]
            else [case lb var of Some l \<Rightarrow> Native l | None \<Rightarrow> Native (- xpress_infinity s),
                  case ub var of Some u \<Rightarrow> Native u | None \<Rightarrow> Native (xpress_infinity s)]),
         Chgcoltype [xpress_var]
           [if is_binary var then ''B'' else if is_integer var then ''I'' else ''C'']]\<rparr>)
     else (Inl (ValueError ''Variable domain type is not recognized''), s))"
  using assms
  by (simp add: update_var_def xpress_chgcoltype_from_var_def solver_call_def Let_def)

theorem update_var_calls_witness:
  "update_var example_env example_interface (example_var 7) =
     (Inr PyNone, example_interface\<lparr>solver_model :=
        [Chgbounds [SolverObj 0, SolverObj 0] [''L'', ''U''] [Native 0, Native (10 ^ 20)],
         Chgcoltype [SolverObj 0] [''I'']]\<rparr>)"
  using update_var_calls [of example_interface "example_var 7" "SolverObj 0" example_env]
  by (simp add: example_interface_def example_var_def)

subsection \<open>\<open>add_column\<close>\<close>

text \<open>
  C1. The claim says that \<open>add_column\<close> forwards to \<open>addcols\<close> the constant that
  \<open>_convert_to_const\<close> obtains from \<open>obj_term\<close>, for a numeric or expression
  \<open>obj_term\<close>. For an expression, here \<open>2 * p\<close> with \<open>p\<close> a \<open>Param\<close> of value 3,
  the code adds \<open>obj_term * var\<close> to the active objective and then raises
  \<open>NameError\<close> in \<open>_convert_to_const\<close>: no constraint is touched and no call reaches
  the solver.
\<close>

theorem add_column_expression_obj_term:
  "add_column E (s\<lparr>active_objective := Inr (ObjectiveData i)\<rparr>) var
      (ProductExpression (Native 2) (ParamData 0 (Some 3))) [] [] =
    (Inl (NameError ''obj_term''),
     s\<lparr>active_objective := Inr (ObjectiveData i),
       obj_expr := (obj_expr s)(i := SumExpression (obj_expr s i)
          (ProductExpression (ProductExpression (Native 2) (ParamData 0 (Some 3)))
             (VarData var)))\<rparr>)"
  by (simp add: add_column_def add_column_objective_def convert_to_const_def name_lookup_def
      xpress_persistent_globals_def)


text \<open>
  What the parts of \<open>add_column\<close> leave alone: the objective step and the loop change
  Pyomo expressions and \<open>_vars_referenced_by_con\<close> only.
\<close>

lemma add_column_objective_frame:
  "add_column_objective s var obj_term = (r, s') \<Longrightarrow>
     solver_model s' = solver_model s \<and> xpress_infinity s' = xpress_infinity s \<and>
     symbol_map s' = symbol_map s \<and>
     pyomo_var_to_solver_var_map s' = pyomo_var_to_solver_var_map s \<and>
     solver_var_to_pyomo_var_map s' = solver_var_to_pyomo_var_map s \<and>
     referenced_variables s' = referenced_variables s"
  by (auto simp: add_column_objective_def split: if_splits sum.splits pyobj.splits)

lemma add_column_loop_frame:
  "add_column_loop E s var ps cl kl = (r, s') \<Longrightarrow>
     solver_model s' = solver_model s \<and> xpress_infinity s' = xpress_infinity s \<and>
     symbol_map s' = symbol_map s \<and>
     pyomo_var_to_solver_var_map s' = pyomo_var_to_solver_var_map s \<and>
     solver_var_to_pyomo_var_map s' = solver_var_to_pyomo_var_map s \<and>
     referenced_variables s' = referenced_variables s"
proof (induction ps arbitrary: s cl kl)
  case Nil
  then show ?case by simp
next
  case (Cons p ps)
  obtain val c where p: "p = (val, c)" by (cases p)
  show ?case
  proof (cases "vars_referenced_by_con s c")
    case None
    with Cons.prems p show ?thesis by auto
  next
    case (Some vs)
    note vs = Some
    show ?thesis
    proof (cases "convert_to_const E val")
      case (Inl e)
      with Cons.prems p vs show ?thesis by auto
    next
      case (Inr cval)
      note cv = Inr
      show ?thesis
      proof (cases "pyomo_con_to_solver_con_map s c")
        case None
        with Cons.prems p vs cv show ?thesis by auto
      next
        case (Some sc)
        with Cons.prems p vs cv have
          "add_column_loop E
             (s\<lparr>con_body := (con_body s)
                  (c := SumExpression (con_body s c) (ProductExpression val (VarData var))),
                vars_referenced_by_con :=
                  (vars_referenced_by_con s)(c \<mapsto> insert (var_id var) vs)\<rparr>)
             var ps (cl @ [cval]) (kl @ [sc]) = (r, s')"
          by (simp add: Let_def)
        from Cons.IH[OF this] show ?thesis by simp
      qed
    qed
  qed
qed

text \<open>A loop that completes has appended one coefficient and one row per pair.\<close>

lemma add_column_loop_lists:
  "add_column_loop E s var ps cl kl = (Inr (cl', kl'), s') \<Longrightarrow>
     length cl' = length cl + length ps \<and> length kl' = length kl + length ps"
proof (induction ps arbitrary: s cl kl)
  case Nil
  then show ?case by simp
next
  case (Cons p ps)
  obtain val c where p: "p = (val, c)" by (cases p)
  from Cons.prems show ?case
    unfolding p
    by (auto simp: Let_def split: option.splits sum.splits dest!: Cons.IH)
qed

text \<open>
  A completed last part has made three calls on the solver model: an \<open>addcols\<close>
  whose objective coefficient is \<open>obj_term\<close> itself, \<open>getIndexFromName\<close> for the
  variable's symbol, and \<open>getVariable\<close> for the index that Xpress returned. The
  variable that Xpress returned to the last call is entered in the bookkeeping maps.
\<close>

lemma add_column_solver_success:
  assumes "add_column_solver E s var obj_term coeff_list constr_list = (Inr r, s')"
  shows "\<exists>l u vartype h index x.
     h = solver_model s @
       [Addcols [obj_term] [0, length coeff_list] constr_list coeff_list [l] [u]
          [fst (getSymbol E (symbol_map s) var)] [vartype]] \<and>
     index = respond E h (GetIndexFromName 2 (fst (getSymbol E (symbol_map s) var))) \<and>
     x = respond E (h @ [GetIndexFromName 2 (fst (getSymbol E (symbol_map s) var))])
           (GetVariable index) \<and>
     solver_model s' =
       h @ [GetIndexFromName 2 (fst (getSymbol E (symbol_map s) var)), GetVariable index] \<and>
     pyomo_var_to_solver_var_map s' = (pyomo_var_to_solver_var_map s)(var_id var \<mapsto> x) \<and>
     solver_var_to_pyomo_var_map s' = (solver_var_to_pyomo_var_map s)(x \<mapsto> var_id var) \<and>
     referenced_variables s' = (referenced_variables s)(var_id var \<mapsto> length coeff_list)"
proof (cases "xpress_chgcoltype_from_var var")
  case (Inl e)
  with assms show ?thesis by (simp add: add_column_solver_def Let_def)
next
  case (Inr vartype)
  note vt = Inr
  show ?thesis
  proof (cases "add_column_bounds E (s\<lparr>symbol_map := snd (getSymbol E (symbol_map s) var)\<rparr>) var")
    case (Inl e)
    with assms vt show ?thesis by (simp add: add_column_solver_def Let_def)
  next
    case (Inr b)
    obtain l u where b: "b = (l, u)" by (cases b)
    from assms vt Inr b have
      "s' = snd (add_column_solver E s var obj_term coeff_list constr_list)" by simp
    with vt Inr b show ?thesis
      by (simp add: add_column_solver_def Let_def solver_call_def)
  qed
qed

lemma mutual_inverses_update:
  assumes "mutual_inverses f g" and "f a = None" and "g b = None"
  shows "mutual_inverses (f(a \<mapsto> b)) (g(b \<mapsto> a))"
  unfolding mutual_inverses_def
proof (intro allI)
  fix a' b'
  from assms have inv: "\<And>x y. (f x = Some y) = (g y = Some x)"
    by (simp add: mutual_inverses_def)
  from inv[of a b'] assms(2) have 1: "g b' \<noteq> Some a" by simp
  from inv[of a' b] assms(3) have 2: "f a' \<noteq> Some b" by simp
  show "((f(a \<mapsto> b)) a' = Some b') = ((g(b \<mapsto> a)) b' = Some a')"
    using 1 2 inv[of a' b'] by (cases "a' = a"; cases "b' = b") auto
qed


lemma example_interface_inverses:
  "mutual_inverses (pyomo_var_to_solver_var_map example_interface)
     (solver_var_to_pyomo_var_map example_interface)"
  by (auto simp: mutual_inverses_def example_interface_def split: if_splits)

lemmas example_defs = add_column_def add_column_objective_def add_column_solver_def
  add_column_bounds_def convert_to_const_def xpress_chgcoltype_from_var_def solver_call_def
  Let_def example_env_def example_interface_def example_var_def

text \<open>
  The calls of a successful \<open>add_column\<close>: the objective coefficient that reaches
  \<open>addcols\<close> is \<open>obj_term\<close> as it was passed, not the constant computed from it.
\<close>

lemma add_column_calls:
  assumes ok: "add_column E s var obj_term constraints coefficients = (Inr r, s')"
  shows "\<exists>cl kl l u name vartype index.
     length cl = min (length coefficients) (length constraints) \<and>
     solver_model s' = solver_model s @
       [Addcols [obj_term] [0, length cl] kl cl [l] [u] [name] [vartype],
        GetIndexFromName 2 name, GetVariable index]"
proof -
  obtain ro s1 where o: "add_column_objective s var obj_term = (ro, s1)"
    by (cases "add_column_objective s var obj_term")
  obtain rl s2 where l: "add_column_loop E s1 var (zip coefficients constraints) [] [] = (rl, s2)"
    by (cases "add_column_loop E s1 var (zip coefficients constraints) [] []")
  from ok o l obtain cl kl where rl: "rl = Inr (cl, kl)"
    and f: "add_column_solver E s2 var obj_term cl kl = (Inr r, s')"
    by (cases ro; cases "convert_to_const E obj_term"; cases rl)
       (auto simp: add_column_def)
  note fo = add_column_objective_frame[OF o]
  note fl = add_column_loop_frame[OF l]
  from add_column_loop_lists[OF l[unfolded rl]]
  have len: "length cl = min (length coefficients) (length constraints)"
    by simp
  from add_column_solver_success[OF f] obtain l u vartype h index where
    "h = solver_model s2 @
       [Addcols [obj_term] [0, length cl] kl cl [l] [u]
          [fst (getSymbol E (symbol_map s2) var)] [vartype]]"
    and "solver_model s' =
       h @ [GetIndexFromName 2 (fst (getSymbol E (symbol_map s2) var)), GetVariable index]"
    by blast
  with fo fl len show ?thesis by auto
qed

text \<open>
  C9, as the claim states it, fails on a successful call that passes two constraints and
  one coefficient for a variable that is in the maps already. Whatever Xpress does,
  \<open>zip\<close> stops at the shorter list, so \<open>_referenced_variables[var]\<close> is 1 and not
  the number of constraints passed in. And where Xpress returns a new object for the
  column just created, the newly created solver variable of the claim, the reverse map
  keeps the entry of the solver variable that \<open>var\<close> had before, so the two maps,
  mutual inverses before the call, are not after it.
\<close>

theorem add_column_bookkeeping_counterexample:
  "fst (add_column example_env example_interface (example_var 7) (Native 0)
          [0, 1] [Native 1]) = Inr PyNone \<and>
   mutual_inverses (pyomo_var_to_solver_var_map example_interface)
     (solver_var_to_pyomo_var_map example_interface) \<and>
   \<not> mutual_inverses
     (pyomo_var_to_solver_var_map (snd (add_column example_env example_interface
        (example_var 7) (Native 0) [0, 1] [Native 1])))
     (solver_var_to_pyomo_var_map (snd (add_column example_env example_interface
        (example_var 7) (Native 0) [0, 1] [Native 1]))) \<and>
   referenced_variables (snd (add_column example_env example_interface
       (example_var 7) (Native 0) [0, 1] [Native 1])) (var_id (example_var 7)) = Some 1 \<and>
   referenced_variables (snd (add_column example_env example_interface
       (example_var 7) (Native 0) [0, 1] [Native 1])) (var_id (example_var 7)) \<noteq>
     Some (length [0 :: nat, 1])"
proof -
  let ?s' = "snd (add_column example_env example_interface (example_var 7) (Native 0)
               [0, 1] [Native 1])"
  have ok: "fst (add_column example_env example_interface (example_var 7) (Native 0)
               [0, 1] [Native 1]) = Inr PyNone"
    by (simp add: example_defs)
  have p: "pyomo_var_to_solver_var_map ?s' 7 = Some (SolverObj 2)"
    by (simp add: example_defs)
  have q: "solver_var_to_pyomo_var_map ?s' (SolverObj 0) = Some 7"
    by (simp add: example_defs)
  have n: "referenced_variables ?s' (var_id (example_var 7)) = Some 1"
    by (simp add: example_defs)
  have "\<not> mutual_inverses (pyomo_var_to_solver_var_map ?s') (solver_var_to_pyomo_var_map ?s')"
  proof
    assume "mutual_inverses (pyomo_var_to_solver_var_map ?s') (solver_var_to_pyomo_var_map ?s')"
    then have "(pyomo_var_to_solver_var_map ?s' 7 = Some (SolverObj 0)) =
               (solver_var_to_pyomo_var_map ?s' (SolverObj 0) = Some 7)"
      unfolding mutual_inverses_def by blast
    with p q show False by simp
  qed
  with ok n example_interface_inverses show ?thesis by simp
qed

text \<open>
  C9, amended. After every successful call of \<open>add_column\<close>, \<open>var\<close> is mapped to
  the solver variable that Xpress returned to \<open>getVariable\<close>, called last and with
  the index that Xpress returned to \<open>getIndexFromName\<close> for the symbol of \<open>var\<close>,
  and that solver variable is mapped back to \<open>var\<close>;
  \<open>_referenced_variables[var]\<close> is the number of coefficient and constraint pairs
  that \<open>zip\<close> yields, the smaller of the two lengths (the number of constraints when
  the lists are of equal length). If moreover the two maps were mutual inverses before
  the call, \<open>var\<close> was not yet a key of the first and the returned solver variable not
  yet a key of the second, they are mutual inverses after it.
\<close>

theorem add_column_bookkeeping:
  assumes ok: "add_column E s var obj_term constraints coefficients = (Inr r, s')"
  shows "\<exists>h index x.
     (\<exists>cl kl l u vartype. h = solver_model s @
        [Addcols [obj_term] [0, length cl] kl cl [l] [u]
           [fst (getSymbol E (symbol_map s) var)] [vartype]]) \<and>
     index = respond E h (GetIndexFromName 2 (fst (getSymbol E (symbol_map s) var))) \<and>
     x = respond E (h @ [GetIndexFromName 2 (fst (getSymbol E (symbol_map s) var))])
           (GetVariable index) \<and>
     solver_model s' =
       h @ [GetIndexFromName 2 (fst (getSymbol E (symbol_map s) var)), GetVariable index] \<and>
     pyomo_var_to_solver_var_map s' (var_id var) = Some x \<and>
     solver_var_to_pyomo_var_map s' x = Some (var_id var) \<and>
     referenced_variables s' (var_id var) =
       Some (min (length coefficients) (length constraints)) \<and>
     (mutual_inverses (pyomo_var_to_solver_var_map s) (solver_var_to_pyomo_var_map s) \<and>
      pyomo_var_to_solver_var_map s (var_id var) = None \<and>
      solver_var_to_pyomo_var_map s x = None \<longrightarrow>
      mutual_inverses (pyomo_var_to_solver_var_map s') (solver_var_to_pyomo_var_map s'))"
proof -
  obtain ro s1 where o: "add_column_objective s var obj_term = (ro, s1)"
    by (cases "add_column_objective s var obj_term")
  obtain rl s2 where l: "add_column_loop E s1 var (zip coefficients constraints) [] [] = (rl, s2)"
    by (cases "add_column_loop E s1 var (zip coefficients constraints) [] []")
  from ok o l obtain cl kl where rl: "rl = Inr (cl, kl)"
    and f: "add_column_solver E s2 var obj_term cl kl = (Inr r, s')"
    by (cases ro; cases "convert_to_const E obj_term"; cases rl)
       (auto simp: add_column_def)
  note fo = add_column_objective_frame[OF o]
  note fl = add_column_loop_frame[OF l]
  from fo fl have sm: "solver_model s2 = solver_model s"
    and sy: "symbol_map s2 = symbol_map s"
    and pm: "pyomo_var_to_solver_var_map s2 = pyomo_var_to_solver_var_map s"
    and qm: "solver_var_to_pyomo_var_map s2 = solver_var_to_pyomo_var_map s"
    by simp_all
  from add_column_loop_lists[OF l[unfolded rl]]
  have len: "length cl = min (length coefficients) (length constraints)"
    by simp
  let ?name = "fst (getSymbol E (symbol_map s) var)"
  from add_column_solver_success[OF f, unfolded sm sy pm qm] obtain lo up vartype h index x
    where h: "h = solver_model s @
        [Addcols [obj_term] [0, length cl] kl cl [lo] [up] [?name] [vartype]]"
    and i: "index = respond E h (GetIndexFromName 2 ?name)"
    and x: "x = respond E (h @ [GetIndexFromName 2 ?name]) (GetVariable index)"
    and m: "solver_model s' = h @ [GetIndexFromName 2 ?name, GetVariable index]"
    and p: "pyomo_var_to_solver_var_map s' = (pyomo_var_to_solver_var_map s)(var_id var \<mapsto> x)"
    and q: "solver_var_to_pyomo_var_map s' = (solver_var_to_pyomo_var_map s)(x \<mapsto> var_id var)"
    and n: "referenced_variables s' = (referenced_variables s2)(var_id var \<mapsto> length cl)"
    by blast
  from h have 0: "\<exists>cl kl l u vartype. h = solver_model s @
        [Addcols [obj_term] [0, length cl] kl cl [l] [u] [?name] [vartype]]"
    by blast
  have 1: "pyomo_var_to_solver_var_map s' (var_id var) = Some x" using p by simp
  have 2: "solver_var_to_pyomo_var_map s' x = Some (var_id var)" using q by simp
  have 3: "referenced_variables s' (var_id var) =
       Some (min (length coefficients) (length constraints))" using n len by simp
  have 4: "mutual_inverses (pyomo_var_to_solver_var_map s) (solver_var_to_pyomo_var_map s) \<and>
      pyomo_var_to_solver_var_map s (var_id var) = None \<and>
      solver_var_to_pyomo_var_map s x = None \<longrightarrow>
      mutual_inverses (pyomo_var_to_solver_var_map s') (solver_var_to_pyomo_var_map s')"
    using p q by (simp add: mutual_inverses_update)
  from 0 i x m 1 2 3 4 show ?thesis by blast
qed

text \<open>
  The theorem at a call that adds a new variable (identity 3) with objective
  coefficient 5 to the two constraints of the example interface: the variable is mapped
  to the object that the example Xpress returns to the third call, and back.
\<close>

theorem add_column_bookkeeping_witness:
  "solver_model (snd (add_column example_env example_interface
        (example_var 3) (Native 5) [0, 1] [Native 1, Native 2])) =
     [Addcols [Native 5] [0, 2] [SolverObj 100, SolverObj 101] [Native 1, Native 2]
        [Native 0] [Native (10 ^ 20)] [''x''] [''I''],
      GetIndexFromName 2 ''x'', GetVariable (Native 0)] \<and>
   pyomo_var_to_solver_var_map (snd (add_column example_env example_interface
        (example_var 3) (Native 5) [0, 1] [Native 1, Native 2])) 3 = Some (SolverObj 2) \<and>
   solver_var_to_pyomo_var_map (snd (add_column example_env example_interface
        (example_var 3) (Native 5) [0, 1] [Native 1, Native 2])) (SolverObj 2) = Some 3 \<and>
   referenced_variables (snd (add_column example_env example_interface
        (example_var 3) (Native 5) [0, 1] [Native 1, Native 2])) 3 = Some 2 \<and>
   mutual_inverses
     (pyomo_var_to_solver_var_map (snd (add_column example_env example_interface
        (example_var 3) (Native 5) [0, 1] [Native 1, Native 2])))
     (solver_var_to_pyomo_var_map (snd (add_column example_env example_interface
        (example_var 3) (Native 5) [0, 1] [Native 1, Native 2])))"
proof -
  let ?s' = "snd (add_column example_env example_interface (example_var 3) (Native 5)
               [0, 1] [Native 1, Native 2])"
  have ok: "add_column example_env example_interface (example_var 3) (Native 5)
              [0, 1] [Native 1, Native 2] = (Inr PyNone, ?s')"
    by (simp add: example_defs)
  have v: "var_id (example_var 3) = 3"
    by (simp add: example_var_def)
  have calls: "solver_model ?s' =
     [Addcols [Native 5] [0, 2] [SolverObj 100, SolverObj 101] [Native 1, Native 2]
        [Native 0] [Native (10 ^ 20)] [''x''] [''I''],
      GetIndexFromName 2 ''x'', GetVariable (Native 0)]"
    by (simp add: example_defs)
  have new: "pyomo_var_to_solver_var_map ?s' 3 = Some (SolverObj 2)"
    by (simp add: example_defs)
  have fresh: "pyomo_var_to_solver_var_map example_interface 3 = None"
    by (simp add: example_interface_def)
  have freshx: "solver_var_to_pyomo_var_map example_interface (SolverObj 2) = None"
    by (simp add: example_interface_def)
  from add_column_bookkeeping [OF ok] obtain x where
    1: "pyomo_var_to_solver_var_map ?s' (var_id (example_var 3)) = Some x"
    and 2: "solver_var_to_pyomo_var_map ?s' x = Some (var_id (example_var 3))"
    and 3: "referenced_variables ?s' (var_id (example_var 3)) =
              Some (min (length [Native 1, Native 2]) (length [0 :: nat, 1]))"
    and 4: "mutual_inverses (pyomo_var_to_solver_var_map example_interface)
              (solver_var_to_pyomo_var_map example_interface) \<and>
            pyomo_var_to_solver_var_map example_interface (var_id (example_var 3)) = None \<and>
            solver_var_to_pyomo_var_map example_interface x = None \<longrightarrow>
            mutual_inverses (pyomo_var_to_solver_var_map ?s') (solver_var_to_pyomo_var_map ?s')"
    by blast
  from 1 new have x: "x = SolverObj 2" by (simp add: v)
  from 4 x fresh freshx example_interface_inverses
  have "mutual_inverses (pyomo_var_to_solver_var_map ?s') (solver_var_to_pyomo_var_map ?s')"
    by (simp add: v)
  moreover from 2 x have "solver_var_to_pyomo_var_map ?s' (SolverObj 2) = Some 3"
    by (simp add: v)
  moreover from 3 have "referenced_variables ?s' 3 = Some 2" by (simp add: v)
  ultimately show ?thesis using calls new by blast
qed

end
